theory Spec2Isabelle
  imports Complex_Main
begin

section \<open>Data model\<close>

text \<open>
  A product as the remote API delivers it (fields \<open>id, title, description, price,
  discountPercentage, thumbnail, images\<close>). The field \<open>id\<close> is named \<open>pid\<close> here, since
  \<open>id\<close> is the identity function of HOL. JavaScript strings are modelled as \<open>string\<close>;
  a character outside ASCII is written as its UTF-8 bytes.
\<close>

record product =
  pid :: int
  title :: string
  description :: string
  price :: real
  discountPercentage :: real
  thumbnail :: string
  images :: "string list"

text \<open>A thrown JavaScript \<open>Error\<close>: \<open>new Error(msg)\<close>, read through \<open>err.message\<close>.\<close>

datatype js_error = Error (message: string)

text \<open>
  The error an axios request rejects with (network failure, timeout, status outside 2xx):
  its \<open>message\<close> and \<open>response?.data\<close>, which is absent when no response arrived.
\<close>

record axios_error =
  err_message :: string
  err_response_data :: "string option"

text \<open>How the promise of \<open>api.get\<close> settles.\<close>

datatype 'a settled = Rejected axios_error | Resolved 'a

text \<open>The console: one entry per call of \<open>console.error\<close>, holding its arguments.\<close>

type_synonym console = "string list list"

text \<open>
  The network as the aggregate load sees it: the outcome of the \<open>k\<close>-th request of a run,
  given the path it asks for. Two requests for the same path may settle differently.
\<close>

type_synonym network = "nat \<Rightarrow> string \<Rightarrow> product list settled"

section \<open>Remote data gateway (services/api.js)\<close>

text \<open>\<open>a || b\<close> on strings: the empty string is the only falsy string.\<close>

definition js_or :: "string \<Rightarrow> string \<Rightarrow> string" where
  "js_or a b = (if a = [] then b else a)"

text \<open>\<open>error.response?.data || error.message\<close>\<close>

definition error_detail :: "axios_error \<Rightarrow> string" where
  "error_detail e =
     (case err_response_data e of
        None \<Rightarrow> err_message e
      | Some d \<Rightarrow> js_or d (err_message e))"

text \<open>
  The message of the error the gateway throws: \<open>Nao foi possivel carregar os produtos.
  Tente novamente mais tarde.\<close>, with a tilde on the first \<open>a\<close> and an acute accent on
  the second \<open>i\<close> of \<open>possivel\<close>.
\<close>

definition products_unavailable :: string where
  "products_unavailable =
     ''N'' @ [CHR 0xC3, CHR 0xA3] @ ''o foi poss'' @ [CHR 0xC3, CHR 0xAD] @
     ''vel carregar os produtos. Tente novamente mais tarde.''"

definition category_path :: "string \<Rightarrow> string" where
  "category_path category = ''products/category/'' @ category"

definition getProductsByCategory ::
    "(string \<Rightarrow> product list settled) \<Rightarrow> string \<Rightarrow> console
      \<Rightarrow> (js_error + product list) \<times> console" where
  "getProductsByCategory api_get category con =
     (case api_get (category_path category) of
        Resolved response_products \<Rightarrow> (Inr response_products, con)
      | Rejected error \<Rightarrow>
          (Inl (Error products_unavailable),
           con @ [[''Erro ao buscar produtos da categoria '' @ category @ '':'',
                   error_detail error]]))"

text \<open>The profile of a logged-in user and the value \<open>mockLogin\<close> resolves with.\<close>

record user_profile =
  username :: string
  name :: string

record login_response =
  success :: bool
  user_r :: user_profile

text \<open>
  \<open>Usuario Teste\<close> and \<open>Usuario ou senha invalidos.\<close>, each with an acute accent on the
  \<open>a\<close> of \<open>Usuario\<close> and of \<open>invalidos\<close>.
\<close>

definition usuario_teste :: string where
  "usuario_teste = ''Usu'' @ [CHR 0xC3, CHR 0xA1] @ ''rio Teste''"

definition invalid_credentials :: string where
  "invalid_credentials =
     ''Usu'' @ [CHR 0xC3, CHR 0xA1] @ ''rio ou senha inv'' @ [CHR 0xC3, CHR 0xA1] @ ''lidos.''"

text \<open>
  The promise of \<open>mockLogin\<close> settles after the one-second timer: \<open>Inr\<close> is \<open>resolve\<close>,
  \<open>Inl\<close> is \<open>reject\<close>.
\<close>

definition mockLogin :: "string \<Rightarrow> string \<Rightarrow> js_error + login_response" where
  "mockLogin uname password =
     (if uname = ''user'' \<and> password = ''password''
      then Inr \<lparr>success = True, user_r = \<lparr>username = ''user'', name = usuario_teste\<rparr>\<rparr>
      else Inl (Error invalid_credentials))"

section \<open>Catalog aggregator (components/CategoryProductList.js)\<close>

subsection \<open>The JavaScript \<open>Map\<close>\<close>

text \<open>
  A \<open>Map\<close> keeps its entries in insertion order. \<open>set\<close> on a key that is present replaces
  the value where the entry stands; on a new key it appends the entry. Keys are compared
  by SameValueZero, which is equality on the integer identifiers of products.
\<close>

fun Map_set :: "('k \<times> 'v) list \<Rightarrow> 'k \<Rightarrow> 'v \<Rightarrow> ('k \<times> 'v) list" where
  "Map_set [] k v = [(k, v)]"
| "Map_set ((k', v') # m) k v =
     (if k' = k then (k', v) # m else (k', v') # Map_set m k v)"

text \<open>\<open>new Map(entries)\<close> sets the entries one after the other; \<open>values()\<close> reads in order.\<close>

definition new_Map :: "('k \<times> 'v) list \<Rightarrow> ('k \<times> 'v) list" where
  "new_Map entries = foldl (\<lambda>m (k, v). Map_set m k v) [] entries"

definition Map_values :: "('k \<times> 'v) list \<Rightarrow> 'v list" where
  "Map_values m = map snd m"

text \<open>\<open>Array.from(new Map(allProducts.map(item => [item.id, item])).values())\<close>\<close>

definition uniqueProducts :: "product list \<Rightarrow> product list" where
  "uniqueProducts allProducts =
     Map_values (new_Map (map (\<lambda>item. (pid item, item)) allProducts))"

subsection \<open>The component's state and \<open>loadProducts\<close>\<close>

record component_state =
  products :: "product list"
  isLoading :: bool
  error :: "string option"
  refreshing :: bool

text \<open>The four \<open>useState\<close> initial values.\<close>

definition initial_state :: component_state where
  "initial_state = \<lparr>products = [], isLoading = True, error = None, refreshing = False\<rparr>"

text \<open>
  The \<open>for\<close> loop of \<open>loadProducts\<close>: one request per category, in order, each awaited
  before the next; a rejected request leaves the loop with the thrown error. \<open>k\<close> counts
  the requests of the run.
\<close>

fun fetch_loop ::
    "network \<Rightarrow> nat \<Rightarrow> string list \<Rightarrow> product list \<Rightarrow> console
      \<Rightarrow> (js_error + product list) \<times> console" where
  "fetch_loop net k [] allProducts con = (Inr allProducts, con)"
| "fetch_loop net k (category # rest) allProducts con =
     (case getProductsByCategory (net k) category con of
        (Inl err, con') \<Rightarrow> (Inl err, con')
      | (Inr categoryProducts, con') \<Rightarrow>
          fetch_loop net (Suc k) rest (allProducts @ categoryProducts) con')"

text \<open>Before the first \<open>await\<close>: \<open>setIsLoading(true); setError(null)\<close>.\<close>

definition loadProducts_begin :: "component_state \<Rightarrow> component_state" where
  "loadProducts_begin s = s\<lparr>isLoading := True, error := None\<rparr>"

text \<open>
  After the loop: the \<open>try\<close> body's \<open>setProducts\<close> or the \<open>catch\<close> block's \<open>setError\<close>,
  then the \<open>finally\<close> block.
\<close>

definition loadProducts_settle ::
    "js_error + product list \<Rightarrow> component_state \<Rightarrow> component_state" where
  "loadProducts_settle r s =
     (case r of
        Inr allProducts \<Rightarrow> s\<lparr>products := uniqueProducts allProducts\<rparr>
      | Inl err \<Rightarrow> s\<lparr>error := Some (js_or (message err) ''Falha ao carregar os produtos.'')\<rparr>)
     \<lparr>isLoading := False, refreshing := False\<rparr>"

definition catch_log :: "js_error + product list \<Rightarrow> console \<Rightarrow> console" where
  "catch_log r con =
     (case r of
        Inr _ \<Rightarrow> con
      | Inl err \<Rightarrow> con @ [[''Erro ao carregar produtos:'', message err]])"

definition loadProducts ::
    "network \<Rightarrow> string list \<Rightarrow> component_state \<times> console \<Rightarrow> component_state \<times> console" where
  "loadProducts net categories sc =
     (case fetch_loop net 0 categories [] (snd sc) of
        (r, con') \<Rightarrow> (loadProducts_settle r (loadProducts_begin (fst sc)), catch_log r con'))"

text \<open>\<open>onRefresh\<close> up to its call of \<open>loadProducts\<close>: \<open>setRefreshing(true)\<close>.\<close>

definition onRefresh_begin :: "component_state \<Rightarrow> component_state" where
  "onRefresh_begin s = s\<lparr>refreshing := True\<rparr>"

subsection \<open>What the component renders\<close>

datatype view =
    LoadingView
  | ErrorView string
  | EmptyView
  | ProductGrid "product list" bool

text \<open>\<open>if (error)\<close>: \<open>null\<close> and the empty string are falsy.\<close>

definition truthy :: "string option \<Rightarrow> bool" where
  "truthy e = (case e of None \<Rightarrow> False | Some m \<Rightarrow> m \<noteq> [])"

definition CategoryProductList :: "component_state \<Rightarrow> view" where
  "CategoryProductList s =
     (if isLoading s \<and> \<not> refreshing s then LoadingView
      else if truthy (error s) then ErrorView (case error s of Some m \<Rightarrow> m | None \<Rightarrow> [])
      else if length (products s) = 0 \<and> \<not> isLoading s then EmptyView
      else ProductGrid (products s) (refreshing s))"

section \<open>Session store (store/authSlice.js)\<close>

record auth_state =
  isLoggedIn :: bool
  user :: "user_profile option"

definition auth_initialState :: auth_state where
  "auth_initialState = \<lparr>isLoggedIn = False, user = None\<rparr>"

text \<open>\<open>loginSuccess\<close> takes \<open>action.payload.user\<close>.\<close>

definition loginSuccess :: "auth_state \<Rightarrow> user_profile \<Rightarrow> auth_state" where
  "loginSuccess state payload_user = state\<lparr>isLoggedIn := True, user := Some payload_user\<rparr>"

definition logout :: "auth_state \<Rightarrow> auth_state" where
  "logout state = state\<lparr>isLoggedIn := False, user := None\<rparr>"

section \<open>Product store (store/productSlice.js)\<close>

text \<open>The status tags \<open>'idle' | 'loading' | 'succeeded' | 'failed'\<close>.\<close>

datatype status = Idle | Loading | Succeeded | Failed

text \<open>
  The state kept per category, \<open>{ items, status, error }\<close>, and the slice's state,
  \<open>{ categories, currentProduct, status, error }\<close>. The fields \<open>status\<close> and \<open>error\<close>
  carry the suffix \<open>_c\<close> in the category's state and \<open>_p\<close> in the slice's state.
\<close>

record category_state =
  items :: "product list"
  status_c :: status
  error_c :: "string option"

record products_state =
  categories :: "string \<rightharpoonup> category_state"
  currentProduct :: "product option"
  status_p :: status
  error_p :: "string option"

definition products_initialState :: products_state where
  "products_initialState =
     \<lparr>categories = Map.empty, currentProduct = None, status_p = Idle, error_p = None\<rparr>"

text \<open>
  \<open>categories\<close> is a plain JavaScript object (\<open>{}\<close> at the start), read and written
  through the draft the reducer receives. A key the object does not hold itself is
  looked up in \<open>Object.prototype\<close>. That object holds a function under each of the
  names below and the accessor \<open>__proto__\<close>, whose getter gives \<open>Object.prototype\<close>
  itself and whose setter, called on a draft, throws.
\<close>

definition builtin_names :: "string list" where
  "builtin_names =
     [''constructor'', ''hasOwnProperty'', ''isPrototypeOf'', ''propertyIsEnumerable'',
      ''toLocaleString'', ''toString'', ''valueOf'', ''__defineGetter__'',
      ''__defineSetter__'', ''__lookupGetter__'', ''__lookupSetter__'']"

text \<open>
  What the reducer can change outside the store: the properties \<open>status\<close> and \<open>error\<close>
  of \<open>Object.prototype\<close> and of the function \<open>Object.prototype\<close> holds under a name,
  each absent until it is written. Nothing else is taken to add properties to
  \<open>Object.prototype\<close>.
\<close>

record js_globals =
  prototype_status :: "status option"
  prototype_error :: "string option"
  function_status :: "string \<Rightarrow> status option"
  function_error :: "string \<Rightarrow> string option"

definition initial_globals :: js_globals where
  "initial_globals =
     \<lparr>prototype_status = None, prototype_error = None,
      function_status = (\<lambda>k. None), function_error = (\<lambda>k. None)\<rparr>"

definition status_tag :: "status \<Rightarrow> string" where
  "status_tag st =
     (case st of Idle \<Rightarrow> ''idle'' | Loading \<Rightarrow> ''loading''
      | Succeeded \<Rightarrow> ''succeeded'' | Failed \<Rightarrow> ''failed'')"

text \<open>
  The value of \<open>state.categories[category]\<close>: the category's own state, or what the key
  inherits (\<open>Object.prototype\<close> itself, one of its functions, a string written there
  before), or \<open>undefined\<close>.
\<close>

datatype looked_up =
    Undefined
  | Own category_state
  | Prototype_object
  | Builtin_function string
  | Primitive string

definition categories_get ::
    "js_globals \<Rightarrow> (string \<rightharpoonup> category_state) \<Rightarrow> string \<Rightarrow> looked_up" where
  "categories_get g cats category =
     (case cats category of
        Some c \<Rightarrow> Own c
      | None \<Rightarrow>
          if category = ''__proto__'' then Prototype_object
          else if category \<in> set builtin_names then Builtin_function category
          else if category = ''status'' then
            (case prototype_status g of None \<Rightarrow> Undefined | Some st \<Rightarrow> Primitive (status_tag st))
          else if category = ''error'' then
            (case prototype_error g of None \<Rightarrow> Undefined | Some e \<Rightarrow> Primitive e)
          else Undefined)"

text \<open>\<open>!value\<close> is false for every object and function and for a string that is not empty.\<close>

definition truthy_value :: "looked_up \<Rightarrow> bool" where
  "truthy_value v =
     (case v of Undefined \<Rightarrow> False | Primitive s \<Rightarrow> s \<noteq> [] | _ \<Rightarrow> True)"

text \<open>
  How a run of the reducer can throw: the setter of \<open>__proto__\<close> called on a draft, and,
  the module's code being strict, the assignment of a property to a string or to
  \<open>undefined\<close>.
\<close>

datatype reducer_error = Immer_setPrototypeOf | TypeError

text \<open>
  \<open>state.categories[category] = v\<close>: the draft hands a key with an inherited setter to
  that setter, and stores every other key as a property of the object itself.
\<close>

definition categories_set ::
    "js_globals \<Rightarrow> products_state \<Rightarrow> string \<Rightarrow> category_state
      \<Rightarrow> (reducer_error + products_state) \<times> js_globals" where
  "categories_set g state category v =
     (if category = ''__proto__'' then (Inl Immer_setPrototypeOf, g)
      else (Inr (state\<lparr>categories := (categories state)(category \<mapsto> v)\<rparr>), g))"

text \<open>
  \<open>state.categories[category].status = st\<close> and \<open>state.categories[category].error = e\<close>:
  the write lands on whatever the lookup gave.
\<close>

definition set_status ::
    "js_globals \<Rightarrow> products_state \<Rightarrow> string \<Rightarrow> status
      \<Rightarrow> (reducer_error + products_state) \<times> js_globals" where
  "set_status g state category st =
     (case categories_get g (categories state) category of
        Own c \<Rightarrow>
          (Inr (state\<lparr>categories := (categories state)(category \<mapsto> c\<lparr>status_c := st\<rparr>)\<rparr>), g)
      | Prototype_object \<Rightarrow> (Inr state, g\<lparr>prototype_status := Some st\<rparr>)
      | Builtin_function k \<Rightarrow>
          (Inr state, g\<lparr>function_status := (function_status g)(k := Some st)\<rparr>)
      | Primitive s \<Rightarrow> (Inl TypeError, g)
      | Undefined \<Rightarrow> (Inl TypeError, g))"

definition set_error ::
    "js_globals \<Rightarrow> products_state \<Rightarrow> string \<Rightarrow> string
      \<Rightarrow> (reducer_error + products_state) \<times> js_globals" where
  "set_error g state category e =
     (case categories_get g (categories state) category of
        Own c \<Rightarrow>
          (Inr (state\<lparr>categories := (categories state)(category \<mapsto> c\<lparr>error_c := Some e\<rparr>)\<rparr>), g)
      | Prototype_object \<Rightarrow> (Inr state, g\<lparr>prototype_error := Some e\<rparr>)
      | Builtin_function k \<Rightarrow>
          (Inr state, g\<lparr>function_error := (function_error g)(k := Some e)\<rparr>)
      | Primitive s \<Rightarrow> (Inl TypeError, g)
      | Undefined \<Rightarrow> (Inl TypeError, g))"

text \<open>
  The actions of the two thunks. The pending and rejected actions of
  \<open>fetchProductsByCategory\<close> carry the category in \<open>action.meta.arg.category\<close>, the
  fulfilled one in \<open>action.payload\<close>; a rejected action's payload is the message given
  to \<open>rejectWithValue\<close>.
\<close>

datatype action =
    FetchByCategory_pending string
  | FetchByCategory_fulfilled string "product list"
  | FetchByCategory_rejected string string
  | FetchDetails_pending
  | FetchDetails_fulfilled product
  | FetchDetails_rejected string

text \<open>
  The reducer returns the next state of the slice, or throws (the store then keeps its
  state), and returns the globals as it leaves them.
\<close>

fun productSlice_reducer ::
    "js_globals \<Rightarrow> products_state \<Rightarrow> action
      \<Rightarrow> (reducer_error + products_state) \<times> js_globals" where
  "productSlice_reducer g state (FetchByCategory_pending category) =
     (if \<not> truthy_value (categories_get g (categories state) category)
      then categories_set g state category \<lparr>items = [], status_c = Loading, error_c = None\<rparr>
      else set_status g state category Loading)"
| "productSlice_reducer g state (FetchByCategory_fulfilled category fetched) =
     categories_set g state category \<lparr>items = fetched, status_c = Succeeded, error_c = None\<rparr>"
| "productSlice_reducer g state (FetchByCategory_rejected category payload) =
     (if \<not> truthy_value (categories_get g (categories state) category)
      then categories_set g state category
             \<lparr>items = [], status_c = Failed, error_c = Some payload\<rparr>
      else
        (case set_status g state category Failed of
           (Inl e, g') \<Rightarrow> (Inl e, g')
         | (Inr state', g') \<Rightarrow> set_error g' state' category payload))"
| "productSlice_reducer g state FetchDetails_pending =
     (Inr (state\<lparr>status_p := Loading, error_p := None\<rparr>), g)"
| "productSlice_reducer g state (FetchDetails_fulfilled p) =
     (Inr (state\<lparr>status_p := Succeeded, currentProduct := Some p\<rparr>), g)"
| "productSlice_reducer g state (FetchDetails_rejected payload) =
     (Inr (state\<lparr>status_p := Failed, error_p := Some payload\<rparr>), g)"

section \<open>Notions used in the statements\<close>

text \<open>
  The outcomes the network holds for a run over the given categories: the \<open>i\<close>-th request
  of the run, counted from \<open>k\<close>, asks for the path of the \<open>i\<close>-th category.
\<close>

definition outcomes :: "network \<Rightarrow> nat \<Rightarrow> string list \<Rightarrow> product list settled list" where
  "outcomes net k cats = map (\<lambda>(i, category). net i (category_path category)) (enumerate k cats)"

text \<open>The elements of a list in the order of their first occurrence.\<close>

definition first_seen :: "'a list \<Rightarrow> 'a list" where
  "first_seen ks = rev (remdups (rev ks))"

text \<open>
  The states the component can be rendered in: the initial one, and those the calls of
  the four state setters lead to, in any order, with the arguments the component gives
  them (\<open>setError\<close> is called with \<open>null\<close> and with \<open>err.message || 'Falha ao carregar
  os produtos.'\<close> only).
\<close>

inductive reachable :: "component_state \<Rightarrow> bool" where
  reachable_initial: "reachable initial_state"
| reachable_setProducts: "reachable s \<Longrightarrow> reachable (s\<lparr>products := uniqueProducts allProducts\<rparr>)"
| reachable_setIsLoading: "reachable s \<Longrightarrow> reachable (s\<lparr>isLoading := b\<rparr>)"
| reachable_setError_null: "reachable s \<Longrightarrow> reachable (s\<lparr>error := None\<rparr>)"
| reachable_setError:
    "reachable s \<Longrightarrow>
     reachable (s\<lparr>error := Some (js_or (message err) ''Falha ao carregar os produtos.'')\<rparr>)"
| reachable_setRefreshing: "reachable s \<Longrightarrow> reachable (s\<lparr>refreshing := b\<rparr>)"

text \<open>Sample data: product 7 as category \<open>a\<close> and as category \<open>b\<close> deliver it, and product 1.\<close>

definition product7_a :: product where
  "product7_a = \<lparr>pid = 7, title = ''Shirt from a'', description = ''blue'', price = 10,
     discountPercentage = 0, thumbnail = ''t7.png'', images = []\<rparr>"

definition product7_b :: product where
  "product7_b = \<lparr>pid = 7, title = ''Shirt from b'', description = ''blue'', price = 12,
     discountPercentage = 5, thumbnail = ''t7.png'', images = [''i7.png'']\<rparr>"

definition product1 :: product where
  "product1 = \<lparr>pid = 1, title = ''Shoe'', description = ''red'', price = 30,
     discountPercentage = 0, thumbnail = ''t1.png'', images = []\<rparr>"

text \<open>A network that answers every request for a category: \<open>a\<close> and \<open>b\<close> overlap in product 7.\<close>

definition sample_network :: network where
  "sample_network k path =
     (if path = category_path ''a'' then Resolved [product7_a, product1]
      else if path = category_path ''b'' then Resolved [product7_b]
      else Resolved [])"

text \<open>A network where the requests for \<open>mens-shoes\<close> time out.\<close>

definition failing_network :: network where
  "failing_network k path =
     (if path = category_path ''mens-shoes''
      then Rejected \<lparr>err_message = ''timeout of 10000ms exceeded'', err_response_data = None\<rparr>
      else Resolved [product1])"

text \<open>A product store that holds two categories.\<close>

definition sample_store :: products_state where
  "sample_store =
     \<lparr>categories = [''mens-shirts'' \<mapsto> \<lparr>items = [product7_a], status_c = Succeeded, error_c = None\<rparr>,
                    ''mens-shoes'' \<mapsto> \<lparr>items = [product1], status_c = Failed, error_c = Some ''e''\<rparr>],
      currentProduct = Some product1, status_p = Succeeded, error_p = None\<rparr>"

section \<open>The insertion-ordered map\<close>

lemma Map_set_keys:
  "map fst (Map_set m k v) = (if k \<in> set (map fst m) then map fst m else map fst m @ [k])"
  by (induction m) (auto simp: rev_image_eqI)

lemma map_of_Map_set: "map_of (Map_set m k v) = (map_of m)(k \<mapsto> v)"
  by (induction m) auto

lemma remdups_append_mem: "k \<in> set ys \<Longrightarrow> remdups (xs @ k # ys) = remdups (xs @ ys)"
  by (induction xs) auto


lemma first_seen_snoc_keys:
  "first_seen (ks @ k # rest) = first_seen ((if k \<in> set ks then ks else ks @ [k]) @ rest)"
  by (simp add: first_seen_def remdups_append_mem)

lemma distinct_first_seen_id: "distinct ks \<Longrightarrow> first_seen ks = ks"
  by (simp add: first_seen_def distinct_remdups_id)

lemma Map_set_distinct: "distinct (map fst m) \<Longrightarrow> distinct (map fst (Map_set m k v))"
  by (simp add: Map_set_keys)

lemma foldl_Map_set_keys:
  "distinct (map fst m) \<Longrightarrow>
   map fst (foldl (\<lambda>m (k, v). Map_set m k v) m es) = first_seen (map fst m @ map fst es)"
proof (induction es arbitrary: m)
  case Nil
  then show ?case by (simp add: distinct_first_seen_id)
next
  case (Cons e es)
  obtain k v where e: "e = (k, v)" by (cases e)
  have d: "distinct (map fst (Map_set m k v))"
    using Cons.prems by (rule Map_set_distinct)
  have "map fst (foldl (\<lambda>m (k, v). Map_set m k v) (Map_set m k v) es)
        = first_seen (map fst (Map_set m k v) @ map fst es)"
    using Cons.IH [OF d] .
  also have "\<dots> = first_seen (map fst m @ k # map fst es)"
    by (simp only: Map_set_keys first_seen_snoc_keys [of "map fst m" k])
  finally show ?case by (simp add: e)
qed

lemma foldl_Map_set_map_of:
  "map_of (foldl (\<lambda>m (k, v). Map_set m k v) m es) = map_of m ++ map_of (rev es)"
proof (induction es arbitrary: m)
  case Nil
  then show ?case by simp
next
  case (Cons e es)
  obtain k v where e: "e = (k, v)" by (cases e)
  show ?case
    by (rule ext) (simp add: e Cons.IH map_of_Map_set map_add_def split: option.split)
qed

lemma map_of_rev_tagged:
  "map_of (rev (map (\<lambda>x. (f x, x)) xs)) k =
     (if k \<in> f ` set xs then Some (last (filter (\<lambda>x. f x = k) xs)) else None)"
  by (induction xs rule: rev_induct) auto

lemma new_Map_keys: "map fst (new_Map es) = first_seen (map fst es)"
  by (simp add: new_Map_def foldl_Map_set_keys)

lemma new_Map_distinct: "distinct (map fst (new_Map es))"
  by (simp add: new_Map_keys first_seen_def)

lemma new_Map_map_of: "map_of (new_Map es) = map_of (rev es)"
  by (simp add: new_Map_def foldl_Map_set_map_of)

lemma new_Map_entry:
  assumes "(k, v) \<in> set (new_Map (map (\<lambda>x. (f x, x)) xs))"
  shows "k \<in> f ` set xs \<and> v = last (filter (\<lambda>x. f x = k) xs)"
proof -
  have "map_of (new_Map (map (\<lambda>x. (f x, x)) xs)) k = Some v"
    using new_Map_distinct assms by (rule map_of_is_SomeI)
  then show ?thesis
    by (simp add: new_Map_map_of map_of_rev_tagged split: if_splits)
qed

lemma last_filter_sat: "x \<in> set xs \<Longrightarrow> P x \<Longrightarrow> P (last (filter P xs))"
proof -
  assume "x \<in> set xs" "P x"
  then have "filter P xs \<noteq> []" by (auto simp: filter_empty_conv)
  then have "last (filter P xs) \<in> set (filter P xs)" by (rule last_in_set)
  then show ?thesis by simp
qed

lemma new_Map_entry_key:
  assumes "(k, v) \<in> set (new_Map (map (\<lambda>x. (f x, x)) xs))"
  shows "f v = k"
proof -
  from new_Map_entry [OF assms] obtain x where "x \<in> set xs" "f x = k"
    and v: "v = last (filter (\<lambda>x. f x = k) xs)" by auto
  then show ?thesis using last_filter_sat [of x xs "\<lambda>x. f x = k"] by simp
qed

lemma uniqueProducts_ids: "map pid (uniqueProducts xs) = first_seen (map pid xs)"
proof -
  let ?m = "new_Map (map (\<lambda>item. (pid item, item)) xs)"
  have "map (pid \<circ> snd) ?m = map fst ?m"
    by (rule map_cong [OF refl]) (auto dest: new_Map_entry_key)
  then show ?thesis
    by (simp add: uniqueProducts_def Map_values_def new_Map_keys comp_def)
qed

lemma uniqueProducts_distinct: "distinct (map pid (uniqueProducts xs))"
  by (simp add: uniqueProducts_ids first_seen_def)

lemma uniqueProducts_last:
  assumes "p \<in> set (uniqueProducts xs)"
  shows "p = last (filter (\<lambda>q. pid q = pid p) xs)"
proof -
  from assms obtain k where kv: "(k, p) \<in> set (new_Map (map (\<lambda>item. (pid item, item)) xs))"
    by (auto simp: uniqueProducts_def Map_values_def)
  have "pid p = k" using new_Map_entry_key [OF kv] .
  with new_Map_entry [OF kv] show ?thesis by simp
qed

lemma uniqueProducts_set_ids: "pid ` set (uniqueProducts xs) = pid ` set xs"
proof -
  have "set (map pid (uniqueProducts xs)) = set (map pid xs)"
    by (simp only: uniqueProducts_ids first_seen_def set_rev set_remdups)
  then show ?thesis by simp
qed

lemma filter_key_singleton:
  "distinct (map f ys) \<Longrightarrow> p \<in> set ys \<Longrightarrow> filter (\<lambda>q. f q = f p) ys = [p]"
proof (induction ys)
  case Nil
  then show ?case by simp
next
  case (Cons y ys)
  show ?case
  proof (cases "y = p")
    case True
    with Cons.prems have "\<forall>q\<in>set ys. f q \<noteq> f p" by (auto simp: image_iff)
    then have "filter (\<lambda>q. f q = f p) ys = []" by (simp add: filter_empty_conv)
    with True show ?thesis by simp
  next
    case False
    with Cons.prems have "p \<in> set ys" "f y \<noteq> f p" by (auto simp: image_iff)
    with Cons show ?thesis by simp
  qed
qed

lemma uniqueProducts_filter:
  "filter (\<lambda>q. pid q = i) (uniqueProducts xs) =
     (if i \<in> pid ` set xs then [last (filter (\<lambda>q. pid q = i) xs)] else [])"
proof (cases "i \<in> pid ` set xs")
  case False
  then have "i \<notin> pid ` set (uniqueProducts xs)" by (simp add: uniqueProducts_set_ids)
  then have "filter (\<lambda>q. pid q = i) (uniqueProducts xs) = []"
    by (auto simp: filter_empty_conv)
  with False show ?thesis by simp
next
  case True
  then have "i \<in> pid ` set (uniqueProducts xs)" by (simp add: uniqueProducts_set_ids)
  then obtain p where p: "p \<in> set (uniqueProducts xs)" "pid p = i" by auto
  have "filter (\<lambda>q. pid q = i) (uniqueProducts xs) = [p]"
    using filter_key_singleton [OF uniqueProducts_distinct p(1)] p(2) by simp
  with uniqueProducts_last [OF p(1)] p(2) True show ?thesis by simp
qed

section \<open>The fetch loop\<close>

lemma outcomes_Nil: "outcomes net k [] = []"
  by (simp add: outcomes_def)

lemma outcomes_Cons:
  "outcomes net k (c # cs) = net k (category_path c) # outcomes net (Suc k) cs"
  by (simp add: outcomes_def)

lemma fetch_loop_resolved:
  "outcomes net k cats = map Resolved rs \<Longrightarrow>
   fetch_loop net k cats acc con = (Inr (acc @ concat rs), con)"
proof (induction cats arbitrary: k acc rs)
  case Nil
  then show ?case by (simp add: outcomes_Nil)
next
  case (Cons c cs)
  from Cons.prems obtain r rs' where rs: "rs = r # rs'"
    and head: "net k (category_path c) = Resolved r"
    and tail: "outcomes net (Suc k) cs = map Resolved rs'"
    by (cases rs) (auto simp: outcomes_Cons)
  show ?case
    by (simp add: getProductsByCategory_def head rs Cons.IH [OF tail])
qed

lemma fetch_loop_rejected:
  "Rejected e \<in> set (outcomes net k cats) \<Longrightarrow>
   fst (fetch_loop net k cats acc con) = Inl (Error products_unavailable)"
proof (induction cats arbitrary: k acc con)
  case Nil
  then show ?case by (simp add: outcomes_Nil)
next
  case (Cons c cs)
  show ?case
  proof (cases "net k (category_path c)")
    case (Rejected e')
    then show ?thesis by (simp add: getProductsByCategory_def)
  next
    case (Resolved r)
    with Cons.prems have "Rejected e \<in> set (outcomes net (Suc k) cs)"
      by (simp add: outcomes_Cons)
    then show ?thesis
      by (simp add: getProductsByCategory_def Resolved Cons.IH)
  qed
qed

lemma loadProducts_resolved:
  assumes "outcomes net 0 cats = map Resolved rs"
  shows "loadProducts net cats (s, con) =
     (s\<lparr>products := uniqueProducts (concat rs), isLoading := False, error := None,
        refreshing := False\<rparr>, con)"
  by (simp add: loadProducts_def fetch_loop_resolved [OF assms] loadProducts_settle_def
      loadProducts_begin_def catch_log_def)

lemma loadProducts_rejected:
  assumes "Rejected e \<in> set (outcomes net 0 cats)"
  shows "fst (loadProducts net cats (s, con)) =
     s\<lparr>isLoading := False, error := Some products_unavailable, refreshing := False\<rparr>"
proof -
  obtain r con' where run: "fetch_loop net 0 cats [] con = (r, con')"
    by (cases "fetch_loop net 0 cats [] con")
  with fetch_loop_rejected [OF assms, of "[]" con]
  have r: "r = Inl (Error products_unavailable)" by simp
  have ne: "products_unavailable \<noteq> []" by (simp add: products_unavailable_def)
  show ?thesis
    by (simp add: loadProducts_def run r loadProducts_settle_def loadProducts_begin_def
        js_or_def ne)
qed

section \<open>The aggregate load\<close>

lemma sample_outcomes:
  "outcomes sample_network 0 [''a'', ''b''] = map Resolved [[product7_a, product1], [product7_b]]"
  by (simp add: outcomes_def sample_network_def category_path_def)

lemma failing_outcomes:
  "Rejected \<lparr>err_message = ''timeout of 10000ms exceeded'', err_response_data = None\<rparr>
     \<in> set (outcomes failing_network 0 [''mens-shirts'', ''mens-shoes''])"
  by (simp add: outcomes_def failing_network_def category_path_def)

text \<open>
  Claim C1. When every request of a run of \<open>loadProducts\<close> resolves, whatever the
  responses hold and however they overlap, the stored product list has pairwise distinct
  identifiers; it holds every identifier of the responses, and no error is set.
\<close>

theorem loadProducts_ids_distinct:
  assumes "outcomes net 0 cats = map Resolved rs"
  shows "distinct (map pid (products (fst (loadProducts net cats (s, con)))))
       \<and> pid ` set (products (fst (loadProducts net cats (s, con)))) = pid ` set (concat rs)
       \<and> error (fst (loadProducts net cats (s, con))) = None"
  by (simp add: loadProducts_resolved [OF assms] uniqueProducts_distinct
      uniqueProducts_set_ids del: set_concat)

theorem loadProducts_ids_distinct_witness:
  "outcomes sample_network 0 [''a'', ''b''] = map Resolved [[product7_a, product1], [product7_b]]
   \<and> distinct (map pid (products (fst (loadProducts sample_network [''a'', ''b''] (initial_state, [])))))
   \<and> map pid (products (fst (loadProducts sample_network [''a'', ''b''] (initial_state, [])))) = [7, 1]"
proof -
  note h = sample_outcomes
  have m: "map pid (products (fst (loadProducts sample_network [''a'', ''b''] (initial_state, [])))) = [7, 1]"
    by (simp add: loadProducts_resolved [OF h] uniqueProducts_def new_Map_def Map_values_def
        product7_a_def product7_b_def product1_def)
  from loadProducts_ids_distinct [OF h, of initial_state "[]"] h m show ?thesis by simp
qed

text \<open>
  Claim C2. Last seen wins: when every request resolves, the stored list holds, for each
  identifier of the concatenated responses, exactly one entry, and it is the last entry
  with that identifier in processing order. With the categories \<open>a\<close> then \<open>b\<close> and
  product 7 in both responses under different titles, the title stored is the one of \<open>b\<close>.
\<close>

theorem loadProducts_last_seen_wins:
  assumes "outcomes net 0 cats = map Resolved rs"
  shows "filter (\<lambda>q. pid q = i) (products (fst (loadProducts net cats (s, con)))) =
     (if i \<in> pid ` set (concat rs) then [last (filter (\<lambda>q. pid q = i) (concat rs))] else [])"
  by (simp add: loadProducts_resolved [OF assms] uniqueProducts_filter del: set_concat)

theorem loadProducts_last_seen_wins_witness:
  "outcomes sample_network 0 [''a'', ''b''] = map Resolved [[product7_a, product1], [product7_b]]
   \<and> map title (filter (\<lambda>q. pid q = 7)
        (products (fst (loadProducts sample_network [''a'', ''b''] (initial_state, [])))))
     = [''Shirt from b'']"
proof -
  note h = sample_outcomes
  from loadProducts_last_seen_wins [OF h, of 7 initial_state "[]"] h show ?thesis
    by (simp add: product7_a_def product7_b_def product1_def)
qed

text \<open>
  Claim C9. When every request resolves, the identifiers of the stored list stand in the
  order of their first occurrence in the concatenated responses, while each stored entry
  is the last occurrence of its identifier.
\<close>

theorem loadProducts_first_seen_order:
  assumes "outcomes net 0 cats = map Resolved rs"
  shows "map pid (products (fst (loadProducts net cats (s, con)))) = first_seen (map pid (concat rs))
       \<and> (\<forall>p \<in> set (products (fst (loadProducts net cats (s, con)))).
            p = last (filter (\<lambda>q. pid q = pid p) (concat rs)))"
  by (simp add: loadProducts_resolved [OF assms] uniqueProducts_ids uniqueProducts_last
      del: set_concat)

theorem loadProducts_first_seen_order_witness:
  "outcomes sample_network 0 [''b'', ''a''] = map Resolved [[product7_b], [product7_a, product1]]
   \<and> first_seen (map pid (concat [[product7_b], [product7_a, product1]])) = [7, 1]
   \<and> products (fst (loadProducts sample_network [''b'', ''a''] (initial_state, [])))
       = [product7_a, product1]"
proof -
  have h: "outcomes sample_network 0 [''b'', ''a'']
      = map Resolved [[product7_b], [product7_a, product1]]"
    by (simp add: outcomes_def sample_network_def category_path_def)
  have ids: "pid product7_a = 7" "pid product7_b = 7" "pid product1 = 1"
    by (simp_all add: product7_a_def product7_b_def product1_def)
  have fs: "first_seen (map pid (concat [[product7_b], [product7_a, product1]])) = [7, 1]"
    by (simp add: first_seen_def ids)
  note t = loadProducts_first_seen_order [OF h, of initial_state "[]"]
  from t [THEN conjunct1] fs
  have m: "map pid (products (fst (loadProducts sample_network [''b'', ''a''] (initial_state, [])))) = [7, 1]"
    by (simp only:)
  note l = t [THEN conjunct2]
  from m obtain x y where xy: "products (fst (loadProducts sample_network [''b'', ''a''] (initial_state, []))) = [x, y]"
    and "pid x = 7" "pid y = 1" by auto
  with l have "x = product7_a" "y = product1" by (simp_all add: ids)
  with xy h fs show ?thesis by simp
qed

text \<open>
  Claim C3. When a request of the run is rejected, whichever it is, the run ends with
  the error set to the gateway's message, the stored products are those stored before
  the run (nothing of the responses received before the failure is stored), and the
  component renders the error view.
\<close>

theorem loadProducts_failure:
  assumes "Rejected e \<in> set (outcomes net 0 cats)"
  shows "error (fst (loadProducts net cats (s, con))) = Some products_unavailable
       \<and> error (fst (loadProducts net cats (s, con))) \<noteq> None
       \<and> products (fst (loadProducts net cats (s, con))) = products s
       \<and> CategoryProductList (fst (loadProducts net cats (s, con))) = ErrorView products_unavailable"
proof -
  have ne: "products_unavailable \<noteq> []" by (simp add: products_unavailable_def)
  show ?thesis
    by (simp add: loadProducts_rejected [OF assms] CategoryProductList_def truthy_def ne)
qed

theorem loadProducts_failure_witness:
  "Rejected \<lparr>err_message = ''timeout of 10000ms exceeded'', err_response_data = None\<rparr>
     \<in> set (outcomes failing_network 0 [''mens-shirts'', ''mens-shoes''])
   \<and> products (fst (loadProducts failing_network [''mens-shirts'', ''mens-shoes'']
        (initial_state, []))) = []
   \<and> CategoryProductList (fst (loadProducts failing_network [''mens-shirts'', ''mens-shoes'']
        (initial_state, []))) = ErrorView products_unavailable"
proof -
  note h = failing_outcomes
  from loadProducts_failure [OF h, of initial_state "[]"] h show ?thesis
    by (simp add: initial_state_def)
qed

section \<open>The gateway and the session\<close>

text \<open>
  Claim C6. Whatever error the request is rejected with (network failure, timeout,
  status outside 2xx), \<open>getProductsByCategory\<close> throws the error with the one fixed
  message; the thrown value does not depend on the cause, whose detail goes to the
  console only.
\<close>

theorem getProductsByCategory_generic_error:
  assumes "api_get (category_path category) = Rejected e"
  shows "fst (getProductsByCategory api_get category con) = Inl (Error products_unavailable)
       \<and> snd (getProductsByCategory api_get category con)
           = con @ [[''Erro ao buscar produtos da categoria '' @ category @ '':'', error_detail e]]"
  by (simp add: getProductsByCategory_def assms)

theorem getProductsByCategory_generic_error_witness:
  "failing_network 0 (category_path ''mens-shoes'')
     = Rejected \<lparr>err_message = ''timeout of 10000ms exceeded'', err_response_data = None\<rparr>
   \<and> fst (getProductsByCategory (failing_network 0) ''mens-shoes'' [])
     = Inl (Error products_unavailable)"
proof -
  have h: "failing_network 0 (category_path ''mens-shoes'')
     = Rejected \<lparr>err_message = ''timeout of 10000ms exceeded'', err_response_data = None\<rparr>"
    by (simp add: failing_network_def)
  from getProductsByCategory_generic_error
         [of "failing_network 0" "''mens-shoes''", OF h, of "[]"] h
  show ?thesis by simp
qed

text \<open>
  Claim C4. \<open>mockLogin\<close> resolves for the pair \<open>user\<close>, \<open>password\<close>, with success and the
  profile of the test user, and rejects every other pair with the invalid-credentials
  error.
\<close>

theorem mockLogin_exact:
  "mockLogin ''user'' ''password''
     = Inr \<lparr>success = True, user_r = \<lparr>username = ''user'', name = usuario_teste\<rparr>\<rparr>
   \<and> (\<forall>u p. (u, p) \<noteq> (''user'', ''password'')
        \<longrightarrow> mockLogin u p = Inl (Error invalid_credentials))"
  by (simp add: mockLogin_def)

theorem mockLogin_exact_witness:
  "(''user'', ''wrong'') \<noteq> (''user'', ''password'')
   \<and> mockLogin ''user'' ''wrong'' = Inl (Error invalid_credentials)
   \<and> mockLogin ''user'' ''password''
     = Inr \<lparr>success = True, user_r = \<lparr>username = ''user'', name = usuario_teste\<rparr>\<rparr>"
  using mockLogin_exact by simp

text \<open>
  Claim C5. \<open>logout\<close> leads from every state of the session, whatever its flag and its
  stored profile, to the state that is logged out and holds no profile.
\<close>

theorem logout_resets: "logout state = \<lparr>isLoggedIn = False, user = None\<rparr>"
  by (simp add: logout_def)

section \<open>The rendered view\<close>

lemma reachable_error_nonempty: "reachable s \<Longrightarrow> error s \<noteq> Some []"
  by (induction rule: reachable.induct) (simp_all add: initial_state_def js_or_def)

lemma reachable_begin: "reachable s \<Longrightarrow> reachable (loadProducts_begin s)"
  unfolding loadProducts_begin_def
  by (intro reachable_setError_null reachable_setIsLoading)

lemma reachable_settle: "reachable s \<Longrightarrow> reachable (loadProducts_settle r s)"
  unfolding loadProducts_settle_def
  by (cases r)
    (auto intro!: reachable_setRefreshing reachable_setIsLoading reachable_setError
      reachable_setProducts)

lemma reachable_refresh: "reachable s \<Longrightarrow> reachable (onRefresh_begin s)"
  unfolding onRefresh_begin_def by (rule reachable_setRefreshing)

lemma reachable_loadProducts:
  "reachable s \<Longrightarrow> reachable (fst (loadProducts net cats (s, con)))"
  by (simp add: loadProducts_def reachable_settle reachable_begin split: prod.split)

lemma empty_view_iff:
  "error s \<noteq> Some [] \<Longrightarrow>
   CategoryProductList s = EmptyView
     \<longleftrightarrow> \<not> isLoading s \<and> error s = None \<and> length (products s) = 0"
  by (cases "error s") (auto simp: CategoryProductList_def truthy_def)

text \<open>
  Claim C7. In every state the component can be in, the empty view is rendered if and
  only if loading is finished, the error is null and the stored list has length zero.
  A run whose requests all resolve with no product ends in such a state: the empty
  view is rendered, and no error is set.
\<close>

theorem empty_view_selected:
  assumes "reachable s"
  shows "(CategoryProductList s = EmptyView
            \<longleftrightarrow> \<not> isLoading s \<and> error s = None \<and> length (products s) = 0)
       \<and> (outcomes net 0 cats = map Resolved rs \<and> concat rs = []
            \<longrightarrow> CategoryProductList (fst (loadProducts net cats (s, con))) = EmptyView
              \<and> error (fst (loadProducts net cats (s, con))) = None)"
proof -
  have u: "uniqueProducts [] = []"
    by (simp add: uniqueProducts_def new_Map_def Map_values_def)
  have "CategoryProductList (fst (loadProducts net cats (s, con))) = EmptyView
        \<and> error (fst (loadProducts net cats (s, con))) = None"
    if h: "outcomes net 0 cats = map Resolved rs" and c: "concat rs = []"
    by (simp add: loadProducts_resolved [OF h] c u CategoryProductList_def truthy_def)
  with empty_view_iff [OF reachable_error_nonempty [OF assms]] show ?thesis by simp
qed

theorem empty_view_selected_witness:
  "reachable initial_state
   \<and> outcomes sample_network 0 [''c''] = map Resolved [[]]
   \<and> concat [[]::product list] = []
   \<and> CategoryProductList (fst (loadProducts sample_network [''c''] (initial_state, []))) = EmptyView
   \<and> CategoryProductList initial_state \<noteq> EmptyView"
proof -
  have h: "outcomes sample_network 0 [''c''] = map Resolved [[]]"
    by (simp add: outcomes_def sample_network_def category_path_def)
  have c: "concat [[]::product list] = []" by simp
  note t = empty_view_selected [OF reachable_initial, of sample_network "[''c'']" "[[]]" "[]"]
  from t [THEN conjunct2, rule_format, OF conjI, OF h c]
  have "CategoryProductList (fst (loadProducts sample_network [''c''] (initial_state, []))) = EmptyView"
    by (rule conjunct1)
  moreover from t [THEN conjunct1] have "CategoryProductList initial_state \<noteq> EmptyView"
    by (simp add: initial_state_def)
  ultimately show ?thesis using h c reachable_initial by simp
qed

section \<open>The product store\<close>

lemma categories_get_own: "cats category = Some c \<Longrightarrow> categories_get g cats category = Own c"
  by (simp add: categories_get_def)

text \<open>
  For every category but \<open>__proto__\<close> the fulfilled transition returns, leaves the globals
  alone, sets the state of the category to the fetched list with status succeeded and no
  error, and leaves every other category and the fields of the detail view as they were.
\<close>

lemma fulfilled_replaces_other_keys:
  assumes "category \<noteq> ''__proto__''"
  shows "\<exists>state'. productSlice_reducer g state (FetchByCategory_fulfilled category fetched)
             = (Inr state', g)
           \<and> categories state' category
               = Some \<lparr>items = fetched, status_c = Succeeded, error_c = None\<rparr>
           \<and> (\<forall>other. other \<noteq> category \<longrightarrow> categories state' other = categories state other)
           \<and> currentProduct state' = currentProduct state
           \<and> status_p state' = status_p state
           \<and> error_p state' = error_p state"
  using assms by (simp add: categories_set_def)

lemma fulfilled_replaces_example:
  "\<exists>state'. productSlice_reducer initial_globals sample_store
        (FetchByCategory_fulfilled ''mens-shirts'' [product7_b]) = (Inr state', initial_globals)
     \<and> categories state' ''mens-shirts''
         = Some \<lparr>items = [product7_b], status_c = Succeeded, error_c = None\<rparr>
     \<and> categories state' ''mens-shoes''
         = Some \<lparr>items = [product1], status_c = Failed, error_c = Some ''e''\<rparr>"
  by (simp add: categories_set_def sample_store_def)


text \<open>
  Claim C10. For a category the store already holds, the pending transition of
  \<open>fetchProductsByCategory\<close> changes the status of the category to loading and nothing
  else of it, so the items fetched before are retained; the rejected transition changes
  its status to failed and its error to the payload, and retains the items. Neither
  throws, and neither touches the globals or the rest of the store.
\<close>

theorem refetch_keeps_items:
  assumes "categories state category = Some c"
  shows "productSlice_reducer g state (FetchByCategory_pending category)
           = (Inr (state\<lparr>categories := (categories state)
                (category \<mapsto> c\<lparr>status_c := Loading\<rparr>)\<rparr>), g)
       \<and> productSlice_reducer g state (FetchByCategory_rejected category payload)
           = (Inr (state\<lparr>categories := (categories state)
                (category \<mapsto> c\<lparr>status_c := Failed, error_c := Some payload\<rparr>)\<rparr>), g)
       \<and> (\<exists>state'. fst (productSlice_reducer g state (FetchByCategory_pending category))
               = Inr state'
             \<and> categories state' category = Some (c\<lparr>status_c := Loading\<rparr>)
             \<and> map_option items (categories state' category) = Some (items c))
       \<and> (\<exists>state'. fst (productSlice_reducer g state (FetchByCategory_rejected category payload))
               = Inr state'
             \<and> categories state' category
                 = Some (c\<lparr>status_c := Failed, error_c := Some payload\<rparr>)
             \<and> map_option items (categories state' category) = Some (items c))"
proof -
  have own: "categories_get g (categories state) category = Own c"
    using assms by (rule categories_get_own)
  have p: "productSlice_reducer g state (FetchByCategory_pending category)
           = (Inr (state\<lparr>categories := (categories state)
                (category \<mapsto> c\<lparr>status_c := Loading\<rparr>)\<rparr>), g)"
    by (simp add: own truthy_value_def set_status_def)
  have st: "set_status g state category Failed
           = (Inr (state\<lparr>categories := (categories state)
                (category \<mapsto> c\<lparr>status_c := Failed\<rparr>)\<rparr>), g)"
    by (simp add: own set_status_def)
  have r: "productSlice_reducer g state (FetchByCategory_rejected category payload)
           = (Inr (state\<lparr>categories := (categories state)
                (category \<mapsto> c\<lparr>status_c := Failed, error_c := Some payload\<rparr>)\<rparr>), g)"
    by (simp add: own truthy_value_def st set_error_def categories_get_own)
  show ?thesis unfolding p r by simp
qed

theorem refetch_keeps_items_witness:
  "categories sample_store ''mens-shirts''
     = Some \<lparr>items = [product7_a], status_c = Succeeded, error_c = None\<rparr>
   \<and> productSlice_reducer initial_globals sample_store (FetchByCategory_pending ''mens-shirts'')
     = (Inr (sample_store\<lparr>categories := (categories sample_store)
          (''mens-shirts'' \<mapsto> \<lparr>items = [product7_a], status_c = Loading, error_c = None\<rparr>)\<rparr>),
        initial_globals)
   \<and> productSlice_reducer initial_globals sample_store
        (FetchByCategory_rejected ''mens-shirts'' products_unavailable)
     = (Inr (sample_store\<lparr>categories := (categories sample_store)
          (''mens-shirts'' \<mapsto> \<lparr>items = [product7_a], status_c = Failed,
             error_c = Some products_unavailable\<rparr>)\<rparr>),
        initial_globals)"
proof -
  have h: "categories sample_store ''mens-shirts''
     = Some \<lparr>items = [product7_a], status_c = Succeeded, error_c = None\<rparr>"
    by (simp add: sample_store_def)
  note t = refetch_keeps_items [OF h, of initial_globals products_unavailable]
  have e1: "\<lparr>items = [product7_a], status_c = Succeeded, error_c = None\<rparr>\<lparr>status_c := Loading\<rparr>
      = \<lparr>items = [product7_a], status_c = Loading, error_c = None\<rparr>"
    by simp
  have e2: "\<lparr>items = [product7_a], status_c = Succeeded, error_c = None\<rparr>
        \<lparr>status_c := Failed, error_c := Some products_unavailable\<rparr>
      = \<lparr>items = [product7_a], status_c = Failed, error_c = Some products_unavailable\<rparr>"
    by simp
  from t [THEN conjunct1] t [THEN conjunct2, THEN conjunct1] h show ?thesis
    by (simp only: e1 e2 simp_thms)
qed

text \<open>
  A key the store does not hold but \<open>Object.prototype\<close> does is taken for a category
  that exists: the pending transition then writes the status to the inherited object and
  leaves the store as it was.
\<close>

lemma pending_inherited_key:
  assumes "categories state category = None" and "category \<in> set builtin_names"
  shows "productSlice_reducer g state (FetchByCategory_pending category)
     = (Inr state, g\<lparr>function_status := (function_status g)(category := Some Loading)\<rparr>)"
proof -
  have "category \<noteq> ''__proto__''"
    using assms(2) by (auto simp: builtin_names_def)
  then have "categories_get g (categories state) category = Builtin_function category"
    using assms by (simp add: categories_get_def)
  then show ?thesis by (simp add: truthy_value_def set_status_def)
qed

lemma pending_proto:
  assumes "categories state ''__proto__'' = None"
  shows "productSlice_reducer g state (FetchByCategory_pending ''__proto__'')
     = (Inr state, g\<lparr>prototype_status := Some Loading\<rparr>)"
  using assms by (simp add: categories_get_def truthy_value_def set_status_def)

end
